theory Spec2Isabelle
  imports Complex_Main
begin

section \<open>JavaScript texts and numbers\<close>

text \<open>
  A text that reaches the server (a telemetry line, a schedule's time and days) is a
  JavaScript string: a list of UTF-16 code units, here natural numbers. The texts the code
  builds itself (command types, payloads, messages) are ASCII and are kept as \<^typ>\<open>string\<close>;
  \<^verbatim>\<open>ascii\<close> gives the code units of such a text.
\<close>

type_synonym jstring = "nat list"

definition ascii :: "string \<Rightarrow> jstring" where
  "ascii s = map of_char s"

text \<open>The code units of the digits \<^verbatim>\<open>0\<close> to \<^verbatim>\<open>9\<close>, and the value of a digit.\<close>

definition is_digit :: "nat \<Rightarrow> bool" where
  "is_digit c = (48 \<le> c \<and> c \<le> 57)"

definition digit_val :: "nat \<Rightarrow> nat" where
  "digit_val c = c - 48"

text \<open>\<^verbatim>\<open>s.split(sep)\<close> for a one-character separator: never empty, \<^verbatim>\<open>''.split(',')\<close> is \<^verbatim>\<open>['']\<close>.\<close>

fun split_str :: "'a \<Rightarrow> 'a list \<Rightarrow> 'a list list" where
  "split_str sep [] = [[]]"
| "split_str sep (c # cs) =
     (if c = sep then [] # split_str sep cs
      else (case split_str sep cs of
              [] \<Rightarrow> [[c]]
            | f # fs \<Rightarrow> (c # f) # fs))"

definition startsWith :: "'a list \<Rightarrow> 'a list \<Rightarrow> bool" where
  "startsWith s p = (take (length p) s = p)"

text \<open>
  A number of JavaScript, and a float of Python: an IEEE double. A finite value is the
  rational it stands for (every double is one; the type has more), with the negative zero
  apart. No arithmetic is done on these values here, only comparisons, which are exact.
\<close>

datatype double = NaN | Fin rat | NegZero | PosInf | NegInf

definition isNaN :: "double \<Rightarrow> bool" where
  "isNaN v = (case v of NaN \<Rightarrow> True | _ \<Rightarrow> False)"

text \<open>
  The place of a number in the order of the comparisons, nothing for \<^verbatim>\<open>NaN\<close>; the two
  zeros have the same place.
\<close>

definition rank :: "double \<Rightarrow> (int \<times> rat) option" where
  "rank v =
     (case v of
        NaN \<Rightarrow> None
      | Fin r \<Rightarrow> Some (0, r)
      | NegZero \<Rightarrow> Some (0, 0)
      | PosInf \<Rightarrow> Some (1, 0)
      | NegInf \<Rightarrow> Some (-1, 0))"

text \<open>\<^verbatim>\<open>a < b\<close>, \<^verbatim>\<open>a > b\<close>, \<^verbatim>\<open>a <= b\<close> and \<^verbatim>\<open>a === b\<close> on numbers: all false when one is \<^verbatim>\<open>NaN\<close>.\<close>

definition float_lt :: "double \<Rightarrow> double \<Rightarrow> bool" where
  "float_lt a b =
     (case rank a of
        None \<Rightarrow> False
      | Some (i, r) \<Rightarrow>
          (case rank b of
             None \<Rightarrow> False
           | Some (j, s) \<Rightarrow> i < j \<or> (i = j \<and> r < s)))"

definition float_gt :: "double \<Rightarrow> double \<Rightarrow> bool" where
  "float_gt a b = float_lt b a"

definition float_eq :: "double \<Rightarrow> double \<Rightarrow> bool" where
  "float_eq a b =
     (case rank a of
        None \<Rightarrow> False
      | Some x \<Rightarrow> (case rank b of None \<Rightarrow> False | Some y \<Rightarrow> x = y))"

definition float_le :: "double \<Rightarrow> double \<Rightarrow> bool" where
  "float_le a b = (float_lt a b \<or> float_eq a b)"

text \<open>\<^verbatim>\<open>v <= c\<close> and \<^verbatim>\<open>v > c\<close> for a finite constant \<^verbatim>\<open>c\<close>.\<close>

definition num_le :: "double \<Rightarrow> rat \<Rightarrow> bool" where
  "num_le v c = float_le v (Fin c)"

definition num_gt :: "double \<Rightarrow> rat \<Rightarrow> bool" where
  "num_gt v c = float_gt v (Fin c)"

text \<open>
  The built-in functions of the JavaScript runtime that the code calls on a text:
  \<^verbatim>\<open>String.prototype.trim\<close>, \<^verbatim>\<open>parseFloat\<close> and \<^verbatim>\<open>Number\<close>. They are not code of this
  repository. The handlers take them as a parameter, and what is proved of a handler holds
  whatever these functions are.
\<close>

record runtime =
  js_trim :: "jstring \<Rightarrow> jstring"
  js_parseFloat :: "jstring \<Rightarrow> double"
  js_Number :: "jstring \<Rightarrow> double"

text \<open>
  \<^verbatim>\<open>String(n)\<close> for an integer-valued number: the decimal digits, with a leading minus sign
  for a negative one (the form JavaScript prints below \<^verbatim>\<open>1e21\<close>).
\<close>

definition digit_char :: "nat \<Rightarrow> char" where
  "digit_char d = ''0123456789'' ! d"

fun dec_str :: "nat \<Rightarrow> string" where
  "dec_str n = (if n < 10 then [digit_char n] else dec_str (n div 10) @ [digit_char (n mod 10)])"

declare dec_str.simps [simp del]

definition int_str :: "int \<Rightarrow> string" where
  "int_str i = (if i < 0 then CHR ''-'' # dec_str (nat (- i)) else dec_str (nat i))"

text \<open>
  A value received in a request body or passed to the command service: absent
  (\<^verbatim>\<open>undefined\<close>) or a number. Command values are integer-valued in this model.
\<close>

datatype jsval = JUndefined | JNum int

definition toString :: "jsval \<Rightarrow> string" where
  "toString v = (case v of JUndefined \<Rightarrow> ''undefined'' | JNum n \<Rightarrow> int_str n)"

text \<open>\<^verbatim>\<open>!v\<close>: \<^verbatim>\<open>undefined\<close> and 0 are falsy.\<close>

definition falsy :: "jsval \<Rightarrow> bool" where
  "falsy v = (case v of JUndefined \<Rightarrow> True | JNum n \<Rightarrow> n = 0)"

text \<open>\<^verbatim>\<open>v <= c\<close> and \<^verbatim>\<open>v > c\<close>, \<^verbatim>\<open>v < c\<close>: every comparison with \<^verbatim>\<open>undefined\<close> is false.\<close>

definition val_le :: "jsval \<Rightarrow> int \<Rightarrow> bool" where
  "val_le v c = (case v of JUndefined \<Rightarrow> False | JNum n \<Rightarrow> n \<le> c)"

definition val_gt :: "jsval \<Rightarrow> int \<Rightarrow> bool" where
  "val_gt v c = (case v of JUndefined \<Rightarrow> False | JNum n \<Rightarrow> n > c)"

definition val_lt :: "jsval \<Rightarrow> int \<Rightarrow> bool" where
  "val_lt v c = (case v of JUndefined \<Rightarrow> False | JNum n \<Rightarrow> n < c)"

text \<open>\<^verbatim>\<open>v || 0\<close>.\<close>

definition or_zero :: "jsval \<Rightarrow> jsval" where
  "or_zero v = (if falsy v then JNum 0 else v)"


section \<open>The stores\<close>

text \<open>
  The Mongoose models \<^verbatim>\<open>Device\<close>, \<^verbatim>\<open>Command\<close>, \<^verbatim>\<open>Schedule\<close>, \<^verbatim>\<open>SensorData\<close> and
  \<^verbatim>\<open>Notification\<close>. Object ids are natural numbers; the \<^verbatim>\<open>timestamp\<close> defaults are left
  out. Field names carry the collection's prefix (\<^verbatim>\<open>cmd_status\<close> is \<^verbatim>\<open>Command.status\<close>).
\<close>

datatype device_status = online | offline | maintenance

datatype command_status = pending | processing | completed | failed

record device =
  dev_id :: nat
  dev_user :: nat
  dev_name :: string
  dev_status :: device_status

record command =
  cmd_id :: nat
  cmd_device :: nat
  cmd_type :: string
  cmd_value :: jsval
  cmd_status :: command_status

record schedule =
  sch_id :: nat
  sch_device :: nat
  sch_type :: string
  sch_time :: jstring
  sch_days :: "jstring list"
  sch_amount :: jsval
  sch_enabled :: bool

record reading =
  rd_device :: nat
  rd_type :: string
  rd_value :: double

text \<open>A template literal with numbers in it: the literal text and the numbers, in order.\<close>

datatype text_part = Lit string | NumV double

record notification =
  note_user :: nat
  note_title :: string
  note_message :: "text_part list"
  note_type :: string
  note_read :: bool

record publish =
  pub_broker :: string
  pub_topic :: string
  pub_payload :: string

datatype emit =
    EmitError string
  | EmitNotification notification
  | EmitCommandStatus nat string jsval command_status
  | RoomNotification nat notification
  | RoomDeviceStatus nat device_status

text \<open>
  The state the services share. \<^verbatim>\<open>published\<close> lists the messages handed to an MQTT
  client's \<^verbatim>\<open>publish\<close>, \<^verbatim>\<open>emitted\<close> the Socket.IO events sent. \<^verbatim>\<open>in_flight\<close> holds the status
  updates that were started and not awaited
  (\<^verbatim>\<open>Command.findByIdAndUpdate(...).catch(...)\<close>): the command store does not have them
  yet; \<^verbatim>\<open>settle\<close> is the store after they have completed. \<^verbatim>\<open>connected\<close> is
  \<^verbatim>\<open>MqttService.connected\<close> (with a client).
\<close>

record world =
  devices :: "device list"
  commands :: "command list"
  schedules :: "schedule list"
  sensorData :: "reading list"
  notifications :: "notification list"
  published :: "publish list"
  emitted :: "emit list"
  in_flight :: "(nat \<times> command_status) list"
  connected :: bool

text \<open>
  What the handlers do not decide: whether the broker acknowledges a publish of the
  service's client, whether the controller's own client connects and has its publish
  acknowledged, and whether the Socket.IO instance is set. Database calls succeed: a
  rejected store promise, which every handler catches and reports as a failure, is not
  part of the model.
\<close>

record env =
  publish_ok :: bool
  direct_connect_ok :: bool
  direct_publish_ok :: bool
  io_instance :: bool

definition Command_create :: "world \<Rightarrow> nat \<Rightarrow> string \<Rightarrow> jsval \<Rightarrow> command \<times> world" where
  "Command_create w dev ty v =
     (let c = \<lparr>cmd_id = length (commands w), cmd_device = dev, cmd_type = ty,
                cmd_value = v, cmd_status = pending\<rparr>
      in (c, w\<lparr>commands := commands w @ [c]\<rparr>))"

definition set_status :: "nat \<Rightarrow> command_status \<Rightarrow> command list \<Rightarrow> command list" where
  "set_status cid st cs = map (\<lambda>c. if cmd_id c = cid then c\<lparr>cmd_status := st\<rparr> else c) cs"

text \<open>An awaited status update (\<^verbatim>\<open>findByIdAndUpdate(...).then\<close>, \<^verbatim>\<open>await command.save()\<close>).\<close>

definition update_status :: "world \<Rightarrow> nat \<Rightarrow> command_status \<Rightarrow> world" where
  "update_status w cid st = w\<lparr>commands := set_status cid st (commands w)\<rparr>"

text \<open>A status update that is started and not awaited.\<close>

definition detach_status :: "world \<Rightarrow> nat \<Rightarrow> command_status \<Rightarrow> world" where
  "detach_status w cid st = w\<lparr>in_flight := in_flight w @ [(cid, st)]\<rparr>"

definition settle :: "world \<Rightarrow> world" where
  "settle w = w\<lparr>commands := foldl (\<lambda>cs (cid, st). set_status cid st cs) (commands w) (in_flight w),
              in_flight := []\<rparr>"

definition find_by_user :: "world \<Rightarrow> nat \<Rightarrow> device list" where
  "find_by_user w u = filter (\<lambda>d. dev_user d = u) (devices w)"

definition Device_findById :: "world \<Rightarrow> nat \<Rightarrow> device option" where
  "Device_findById w i = find (\<lambda>d. dev_id d = i) (devices w)"

definition Device_save :: "world \<Rightarrow> device \<Rightarrow> world" where
  "Device_save w d = w\<lparr>devices := map (\<lambda>x. if dev_id x = dev_id d then d else x) (devices w)\<rparr>"

definition SensorData_create :: "world \<Rightarrow> nat \<Rightarrow> string \<Rightarrow> double \<Rightarrow> world" where
  "SensorData_create w dev ty v =
     w\<lparr>sensorData := sensorData w @ [\<lparr>rd_device = dev, rd_type = ty, rd_value = v\<rparr>]\<rparr>"

definition Notification_create :: "world \<Rightarrow> notification \<Rightarrow> world" where
  "Notification_create w n = w\<lparr>notifications := notifications w @ [n]\<rparr>"

definition emit_event :: "world \<Rightarrow> emit \<Rightarrow> world" where
  "emit_event w e = w\<lparr>emitted := emitted w @ [e]\<rparr>"

section \<open>The command service: \<^verbatim>\<open>MqttService.sendCommand\<close>\<close>

definition brokerUrl :: string where
  "brokerUrl = ''mqtt://broker.hivemq.com:1883''"

definition s2cTopic :: string where
  "s2cTopic = ''/seniorDesign/s2c''"

text \<open>The \<^verbatim>\<open>switch\<close> of \<^verbatim>\<open>sendCommand\<close>: the payload, or nothing for an unknown command type.\<close>

definition mqttCommand :: "string \<Rightarrow> jsval \<Rightarrow> string option" where
  "mqttCommand commandType v =
     (if commandType = ''dispenseFood'' then Some (''F'' @ toString v)
      else if commandType = ''dispenseWater'' then Some (''W'' @ toString v)
      else if commandType = ''setTemperature'' then Some (''T'' @ toString v)
      else None)"

definition client_publish :: "world \<Rightarrow> string \<Rightarrow> string \<Rightarrow> string \<Rightarrow> world" where
  "client_publish w broker topic payload =
     w\<lparr>published := published w @
        [\<lparr>pub_broker = broker, pub_topic = topic, pub_payload = payload\<rparr>]\<rparr>"

definition sendCommand :: "env \<Rightarrow> world \<Rightarrow> string \<Rightarrow> jsval \<Rightarrow> nat \<Rightarrow> bool \<times> world" where
  "sendCommand e w commandType v deviceId =
     (if connected w then
        (case mqttCommand commandType v of
           None \<Rightarrow> (False, w)
         | Some msg \<Rightarrow>
             (let (command, w1) = Command_create w deviceId commandType (or_zero v);
                  w2 = client_publish w1 brokerUrl s2cTopic msg
              in if publish_ok e
                 then (True, update_status w2 (cmd_id command) processing)
                 else (False, w2)))
      else (False, w))"


section \<open>The HTTP controllers (\<^verbatim>\<open>controlController.js\<close>)\<close>

datatype response = Response nat bool string

text \<open>The degree sign of the temperature messages, as its two UTF-8 bytes.\<close>

definition degree_sign :: string where
  "degree_sign = [CHR 0xC2, CHR 0xB0]"

text \<open>
  \<^verbatim>\<open>dispenseFood\<close> does not call the command service: it creates the command record,
  opens a client of its own to \<^verbatim>\<open>test.mosquitto.org\<close>, publishes the text \<^verbatim>\<open>F0\<close> and starts
  the status update without awaiting it before it answers. \<^verbatim>\<open>user\<close> is \<^verbatim>\<open>req.user._id\<close>,
  \<^verbatim>\<open>amount\<close> is \<^verbatim>\<open>req.body.amount\<close>.
\<close>

definition dispenseFood :: "env \<Rightarrow> world \<Rightarrow> nat \<Rightarrow> jsval \<Rightarrow> response \<times> world" where
  "dispenseFood e w user amount =
     (if falsy amount \<or> val_le amount 0 \<or> val_gt amount 100
      then (Response 400 False ''Invalid amount. Must be between 1 and 100.'', w)
      else
        case find_by_user w user of
          [] \<Rightarrow> (Response 404 False ''No devices found'', w)
        | device # _ \<Rightarrow>
            if dev_status device = online then
              (let (command, w1) = Command_create w (dev_id device) ''dispenseFood'' (or_zero amount)
               in if direct_connect_ok e then
                    (let w2 = client_publish w1 ''mqtt://test.mosquitto.org'' ''/seniorDesign/s2c'' ''F0''
                     in if direct_publish_ok e
                        then (Response 200 True ''Food dispense command sent successfully'',
                              detach_status w2 (cmd_id command) processing)
                        else (Response 500 False ''Failed to send command to device'',
                              detach_status w2 (cmd_id command) failed))
                  else (Response 500 False ''MQTT connection error'',
                        detach_status w1 (cmd_id command) failed))
            else (Response 400 False ''Device is offline or in maintenance'', w))"

definition dispenseWater :: "env \<Rightarrow> world \<Rightarrow> nat \<Rightarrow> jsval \<Rightarrow> response \<times> world" where
  "dispenseWater e w user amount =
     (if falsy amount \<or> val_le amount 0 \<or> val_gt amount 100
      then (Response 400 False ''Invalid amount. Must be between 1 and 100.'', w)
      else
        case find_by_user w user of
          [] \<Rightarrow> (Response 404 False ''No devices found'', w)
        | device # _ \<Rightarrow>
            if dev_status device = online then
              (let (commandSent, w1) = sendCommand e w ''dispenseWater'' amount (dev_id device)
               in if commandSent
                  then (Response 200 True ''Water dispense command sent successfully'', w1)
                  else (Response 500 False ''Failed to send command to device'', w1))
            else (Response 400 False ''Device is offline or in maintenance'', w))"

definition setTemperature :: "env \<Rightarrow> world \<Rightarrow> nat \<Rightarrow> jsval \<Rightarrow> response \<times> world" where
  "setTemperature e w user temperature =
     (if temperature = JUndefined \<or> val_lt temperature 15 \<or> val_gt temperature 30
      then (Response 400 False (''Invalid temperature. Must be between 15'' @ degree_sign @
              ''C and 30'' @ degree_sign @ ''C.''), w)
      else
        case find_by_user w user of
          [] \<Rightarrow> (Response 404 False ''No devices found'', w)
        | device # _ \<Rightarrow>
            if dev_status device = online then
              (let (commandSent, w1) = sendCommand e w ''setTemperature'' temperature (dev_id device)
               in if commandSent
                  then (Response 200 True ''Temperature setting command sent successfully'', w1)
                  else (Response 500 False ''Failed to send command to device'', w1))
            else (Response 400 False ''Device is offline or in maintenance'', w))"

section \<open>The socket handlers (\<^verbatim>\<open>setupSocketIO\<close>)\<close>

text \<open>
  On connection the user's first device is set online, on disconnection offline. The three
  command handlers have one shape: validate the value, take the user's first device,
  create a command record, call the command service (which creates a record of its own),
  mark the handler's record \<^verbatim>\<open>processing\<close> when the service reports success, create a
  notification and emit it with the command status. \<^verbatim>\<open>socket_command\<close> is that shape
  after validation; the handlers differ in the command type and the notification text.
\<close>

definition socket_connection :: "world \<Rightarrow> nat \<Rightarrow> world" where
  "socket_connection w user =
     (case find_by_user w user of
        [] \<Rightarrow> w
      | device # _ \<Rightarrow>
          emit_event (Device_save w (device\<lparr>dev_status := online\<rparr>))
            (RoomDeviceStatus (dev_id device) online))"

definition socket_disconnect :: "world \<Rightarrow> nat \<Rightarrow> world" where
  "socket_disconnect w user =
     (case find_by_user w user of
        [] \<Rightarrow> w
      | device # _ \<Rightarrow>
          emit_event (Device_save w (device\<lparr>dev_status := offline\<rparr>))
            (RoomDeviceStatus (dev_id device) offline))"

definition socket_command ::
  "env \<Rightarrow> world \<Rightarrow> nat \<Rightarrow> string \<Rightarrow> jsval \<Rightarrow> string \<Rightarrow> string \<Rightarrow> world" where
  "socket_command e w user commandType v title message =
     (case find_by_user w user of
        [] \<Rightarrow> emit_event w (EmitError ''No devices found'')
      | device # _ \<Rightarrow>
          (let (command, w1) = Command_create w (dev_id device) commandType v;
               (mqttSent, w2) = sendCommand e w1 commandType v (dev_id device);
               st = (if mqttSent then processing else cmd_status command);
               w3 = (if mqttSent then update_status w2 (cmd_id command) processing else w2);
               n = \<lparr>note_user = user, note_title = title, note_message = [Lit message],
                    note_type = ''info'', note_read = False\<rparr>;
               w4 = Notification_create w3 n;
               w5 = emit_event w4 (EmitNotification n)
           in emit_event w5 (EmitCommandStatus (cmd_id command) commandType v st)))"

definition socket_dispenseFood :: "env \<Rightarrow> world \<Rightarrow> nat \<Rightarrow> jsval \<Rightarrow> world" where
  "socket_dispenseFood e w user amount =
     (if falsy amount \<or> val_le amount 0 \<or> val_gt amount 100
      then emit_event w (EmitError ''Invalid amount. Must be between 1 and 100.'')
      else socket_command e w user ''dispenseFood'' amount ''Food Dispense Command Sent''
             (''Command to dispense '' @ toString amount @ ''% of food has been sent to the device.''))"

definition socket_dispenseWater :: "env \<Rightarrow> world \<Rightarrow> nat \<Rightarrow> jsval \<Rightarrow> world" where
  "socket_dispenseWater e w user amount =
     (if falsy amount \<or> val_le amount 0 \<or> val_gt amount 100
      then emit_event w (EmitError ''Invalid amount. Must be between 1 and 100.'')
      else socket_command e w user ''dispenseWater'' amount ''Water Dispense Command Sent''
             (''Command to dispense '' @ toString amount @ ''% of water has been sent to the device.''))"

definition socket_setTemperature :: "env \<Rightarrow> world \<Rightarrow> nat \<Rightarrow> jsval \<Rightarrow> world" where
  "socket_setTemperature e w user temperature =
     (if temperature = JUndefined \<or> val_lt temperature 15 \<or> val_gt temperature 30
      then emit_event w (EmitError (''Invalid temperature. Must be between 15'' @ degree_sign @
              ''C and 30'' @ degree_sign @ ''C.''))
      else socket_command e w user ''setTemperature'' temperature ''Temperature Command Sent''
             (''Command to set temperature to '' @ toString temperature @ degree_sign @
              ''C has been sent to the device.''))"

section \<open>The scheduler (\<^verbatim>\<open>schedulerService.js\<close>)\<close>

datatype weekday = Monday | Tuesday | Wednesday | Thursday | Friday | Saturday | Sunday

text \<open>\<^verbatim>\<open>now.toLocaleString('en-US', { weekday: 'long' })\<close>.\<close>

fun weekday_name :: "weekday \<Rightarrow> jstring" where
  "weekday_name Monday = ascii ''Monday''"
| "weekday_name Tuesday = ascii ''Tuesday''"
| "weekday_name Wednesday = ascii ''Wednesday''"
| "weekday_name Thursday = ascii ''Thursday''"
| "weekday_name Friday = ascii ''Friday''"
| "weekday_name Saturday = ascii ''Saturday''"
| "weekday_name Sunday = ascii ''Sunday''"

text \<open>The instant \<^verbatim>\<open>new Date()\<close> gives: the local weekday, \<^verbatim>\<open>getHours()\<close> and \<^verbatim>\<open>getMinutes()\<close>.\<close>

record clock =
  day :: weekday
  hours :: nat
  minutes :: nat

text \<open>
  \<^verbatim>\<open>const [scheduleHours, scheduleMinutes] = schedule.time.split(':').map(Number)\<close>: a
  component the list does not have is \<^verbatim>\<open>undefined\<close>, which no number is \<^verbatim>\<open>===\<close> to.
\<close>

definition shouldRunSchedule :: "runtime \<Rightarrow> clock \<Rightarrow> schedule \<Rightarrow> bool" where
  "shouldRunSchedule rt now s =
     (let currentDay = weekday_name (day now);
          parts = map (js_Number rt) (split_str 58 (sch_time s));
          isScheduledDay = (currentDay \<in> set (sch_days s));
          isScheduledTime =
            (case parts of
               scheduleHours # scheduleMinutes # _ \<Rightarrow>
                 float_eq (Fin (of_nat (hours now))) scheduleHours \<and>
                 float_eq (Fin (of_nat (minutes now))) scheduleMinutes
             | _ \<Rightarrow> False)
      in sch_enabled s \<and> isScheduledDay \<and> isScheduledTime)"

definition schedule_command :: "schedule \<Rightarrow> string" where
  "schedule_command s = (if sch_type s = ''food'' then ''dispenseFood'' else ''dispenseWater'')"

text \<open>The body of the loop of \<^verbatim>\<open>checkAndExecuteSchedules\<close> for one schedule.\<close>

definition execute_schedule :: "runtime \<Rightarrow> env \<Rightarrow> clock \<Rightarrow> world \<Rightarrow> schedule \<Rightarrow> world" where
  "execute_schedule rt e now w s =
     (if shouldRunSchedule rt now s then
        (case Device_findById w (sch_device s) of
           None \<Rightarrow> w
         | Some device \<Rightarrow>
             (let (command, w1) = Command_create w (sch_device s) (schedule_command s) (sch_amount s);
                  (mqttSent, w2) = sendCommand e w1 (schedule_command s) (sch_amount s) (sch_device s)
              in if mqttSent then update_status w2 (cmd_id command) processing else w2))
      else w)"

definition checkAndExecuteSchedules :: "runtime \<Rightarrow> env \<Rightarrow> clock \<Rightarrow> world \<Rightarrow> world" where
  "checkAndExecuteSchedules rt e now w =
     foldl (execute_schedule rt e now) w (filter sch_enabled (schedules w))"

section \<open>Telemetry: \<^verbatim>\<open>MqttService.handleSensorData\<close>\<close>

text \<open>
  Title, message and type of a threshold notification (the \<^verbatim>\<open>switch\<close> of
  \<^verbatim>\<open>createNotificationForSensorThreshold\<close>); nothing for an unknown sensor type.
\<close>

definition threshold_text ::
  "string \<Rightarrow> double \<Rightarrow> rat \<Rightarrow> string \<Rightarrow> (string \<times> text_part list \<times> string) option" where
  "threshold_text ty v threshold level =
     (if ty = ''food'' then
        Some (if level = ''warning'' then ''Low Food Level'' else ''Critical Food Level'',
              if level = ''warning''
              then [Lit ''Food level is at '', NumV v, Lit ''%. Consider refilling soon.'']
              else [Lit ''Food level is critically low at '', NumV v,
                    Lit ''%. Please refill as soon as possible.''],
              if level = ''warning'' then ''warning'' else ''danger'')
      else if ty = ''water'' then
        Some (if level = ''warning'' then ''Low Water Level'' else ''Critical Water Level'',
              if level = ''warning''
              then [Lit ''Water level is at '', NumV v, Lit ''%. Consider refilling soon.'']
              else [Lit ''Water level is critically low at '', NumV v,
                    Lit ''%. Please refill as soon as possible.''],
              if level = ''warning'' then ''warning'' else ''danger'')
      else if ty = ''temperature'' then
        Some (''Temperature Alert'',
              [Lit (''Temperature is '' @ (if num_gt v threshold then ''above'' else ''below'') @
                    '' the recommended range at ''), NumV v, Lit (degree_sign @ ''C.'')],
              ''warning'')
      else if ty = ''humidity'' then
        Some (''Humidity Alert'',
              [Lit (''Humidity is '' @ (if num_gt v threshold then ''above'' else ''below'') @
                    '' the recommended range at ''), NumV v, Lit ''%.''],
              ''warning'')
      else None)"

definition createNotificationForSensorThreshold ::
  "world \<Rightarrow> nat \<Rightarrow> string \<Rightarrow> double \<Rightarrow> rat \<Rightarrow> string \<Rightarrow> notification option \<times> world" where
  "createNotificationForSensorThreshold w deviceId ty v threshold level =
     (case Device_findById w deviceId of
        None \<Rightarrow> (None, w)
      | Some device \<Rightarrow>
          (case threshold_text ty v threshold level of
             None \<Rightarrow> (None, w)
           | Some (title, message, notificationType) \<Rightarrow>
               (let n = \<lparr>note_user = dev_user device, note_title = title,
                         note_message = message, note_type = notificationType,
                         note_read = False\<rparr>
                in (Some n, Notification_create w n))))"

text \<open>
  A threshold was crossed: create the notification and, when there is one and the
  Socket.IO instance is set, emit it to the device's room.
\<close>

definition notify_threshold ::
  "env \<Rightarrow> world \<Rightarrow> nat \<Rightarrow> string \<Rightarrow> double \<Rightarrow> rat \<Rightarrow> string \<Rightarrow> world" where
  "notify_threshold e w deviceId ty v threshold level =
     (case createNotificationForSensorThreshold w deviceId ty v threshold level of
        (None, w1) \<Rightarrow> w1
      | (Some n, w1) \<Rightarrow>
          if io_instance e then emit_event w1 (RoomNotification deviceId n) else w1)"

text \<open>The inner loop's body: one sensor of one device.\<close>

definition save_sensor :: "env \<Rightarrow> device \<Rightarrow> world \<Rightarrow> string \<times> double \<Rightarrow> world" where
  "save_sensor e device w sensor =
     (let ty = fst sensor; v = snd sensor;
          w1 = SensorData_create w (dev_id device) ty v
      in if ty = ''food'' then
           (if num_le v 10 then notify_threshold e w1 (dev_id device) ''food'' v 10 ''critical''
            else if num_le v 20 then notify_threshold e w1 (dev_id device) ''food'' v 20 ''warning''
            else w1)
         else if ty = ''water'' then
           (if num_le v 15 then notify_threshold e w1 (dev_id device) ''water'' v 15 ''critical''
            else if num_le v 25 then notify_threshold e w1 (dev_id device) ''water'' v 25 ''warning''
            else w1)
         else w1)"

text \<open>The outer loop's body: the four readings of one device.\<close>

definition update_device :: "env \<Rightarrow> double list \<Rightarrow> world \<Rightarrow> device \<Rightarrow> world" where
  "update_device e vals w device =
     foldl (save_sensor e device) w
       [(''food'', vals ! 0), (''water'', vals ! 1),
        (''temperature'', vals ! 2), (''humidity'', vals ! 3)]"

text \<open>\<^verbatim>\<open>data.split(',').map(val => parseFloat(val.trim()))\<close>.\<close>

definition parse_values :: "runtime \<Rightarrow> jstring \<Rightarrow> double list" where
  "parse_values rt data = map (\<lambda>val. js_parseFloat rt (js_trim rt val)) (split_str 44 data)"

text \<open>
  The result is \<^verbatim>\<open>undefined\<close> (\<open>None\<close>) for a message that is skipped, or
  \<^verbatim>\<open>{ success: true, device }\<close> with the last device updated.
\<close>

definition handleSensorData ::
  "runtime \<Rightarrow> env \<Rightarrow> world \<Rightarrow> jstring \<Rightarrow> device option \<times> world" where
  "handleSensorData rt e w data =
     (if startsWith data (ascii ''TEST-'') then (None, w)
      else
        let vals = parse_values rt data in
        if length vals < 4 \<or> list_ex isNaN vals then (None, w)
        else
          let devs = filter (\<lambda>d. dev_status d = online) (devices w) in
          if length devs = 0 then (None, w)
          else (Some (last devs), foldl (update_device e vals) w devs))"


section \<open>The actuator controller (\<^verbatim>\<open>control_system/actuator_controller.py\<close>)\<close>

text \<open>
  The Python module is among the sources in compiled form. An actuator is the object of
  class \<^verbatim>\<open>EnvironmentalController\<close> with the attributes of its base class \<^verbatim>\<open>Actuator\<close> and of
  its \<^verbatim>\<open>ActuatorStatus\<close> that the methods below read or write (identity, name and
  connection flag are only logged). Times and tuning values are finite floats, kept as the
  rationals they are.
\<close>

datatype actuator_state = IDLE | ACTIVE | ERROR | MAINTENANCE | DISABLED

datatype controller_type = FAN | HEATER | HUMIDIFIER | DEHUMIDIFIER

record actuator =
  controller_type :: controller_type
  max_activation_time :: rat
  min_cooldown_time :: rat
  last_deactivation_time :: rat
  max_activations_per_day :: int
  daily_activation_count :: int
  daily_reset_time :: rat
  status_state :: actuator_state
  status_last_activated :: rat
  status_activation_count :: int
  status_error_message :: "string option"
  status_current_power :: double

text \<open>
  \<^verbatim>\<open>Actuator.__init__\<close>, with the maximum activation time that
  \<^verbatim>\<open>EnvironmentalController.__init__\<close> then sets for the controller type.
\<close>

definition new_controller :: "controller_type \<Rightarrow> rat \<Rightarrow> actuator" where
  "new_controller ty max_time =
     \<lparr>controller_type = ty, max_activation_time = max_time, min_cooldown_time = 10,
      last_deactivation_time = 0, max_activations_per_day = 50, daily_activation_count = 0,
      daily_reset_time = 0, status_state = IDLE, status_last_activated = 0,
      status_activation_count = 0, status_error_message = None,
      status_current_power = Fin 0\<rparr>"

text \<open>
  The float constants \<^verbatim>\<open>0.7\<close> and \<^verbatim>\<open>0.1\<close> of the code: the doubles nearest to 7/10 and
  1/10.
\<close>

definition float_0_7 :: rat where
  "float_0_7 = 3152519739159347 / 4503599627370496"

definition float_0_1 :: rat where
  "float_0_1 = 3602879701896397 / 36028797018963968"

text \<open>
  Python's \<^verbatim>\<open>min(a, b)\<close> and \<^verbatim>\<open>max(a, b)\<close>: the second argument is taken only when it
  compares smaller (greater) than the first, so a \<^verbatim>\<open>NaN\<close> in second place is never taken.
\<close>

definition py_min :: "double \<Rightarrow> double \<Rightarrow> double" where
  "py_min a b = (if float_lt b a then b else a)"

definition py_max :: "double \<Rightarrow> double \<Rightarrow> double" where
  "py_max a b = (if float_gt b a then b else a)"

text \<open>The reason \<^verbatim>\<open>is_safe_to_activate\<close> gives with \<^verbatim>\<open>False\<close>, with the values its text shows.\<close>

datatype rejection =
    ActuatorDisabled
  | InErrorState "string option"
  | InMaintenanceMode
  | CooldownNotComplete rat
  | DailyLimitReached int

text \<open>
  \<^verbatim>\<open>Actuator.is_safe_to_activate\<close>. \<^verbatim>\<open>current_time\<close> is what \<^verbatim>\<open>time.time()\<close> returns and
  \<^verbatim>\<open>fsub\<close> is the subtraction of floats. The check itself resets the daily counter, once
  the cooldown check has passed and more than 86400 seconds lie behind the last reset.
\<close>

definition is_safe_to_activate ::
  "(rat \<Rightarrow> rat \<Rightarrow> rat) \<Rightarrow> rat \<Rightarrow> actuator \<Rightarrow> rejection option \<times> actuator" where
  "is_safe_to_activate fsub current_time a =
     (if status_state a = DISABLED then (Some ActuatorDisabled, a)
      else if status_state a = ERROR then (Some (InErrorState (status_error_message a)), a)
      else if status_state a = MAINTENANCE then (Some InMaintenanceMode, a)
      else if fsub current_time (last_deactivation_time a) < min_cooldown_time a
      then (Some (CooldownNotComplete
                    (fsub (min_cooldown_time a) (fsub current_time (last_deactivation_time a)))), a)
      else
        let a1 = (if fsub current_time (daily_reset_time a) > 86400
                  then a\<lparr>daily_activation_count := 0, daily_reset_time := current_time\<rparr>
                  else a)
        in if daily_activation_count a1 \<ge> max_activations_per_day a1
           then (Some (DailyLimitReached (max_activations_per_day a1)), a1)
           else (None, a1))"

text \<open>
  \<^verbatim>\<open>EnvironmentalController.deactivate\<close>, at the time \<^verbatim>\<open>time.time()\<close> returns in it: nothing
  to do unless the actuator is active.
\<close>

definition deactivate :: "rat \<Rightarrow> actuator \<Rightarrow> bool \<times> actuator" where
  "deactivate stopped a =
     (if status_state a \<noteq> ACTIVE then (True, a)
      else (True, a\<lparr>status_state := IDLE, last_deactivation_time := stopped,
                     status_current_power := Fin 0\<rparr>))"

text \<open>The three readings of the clock during one call of \<^verbatim>\<open>activate\<close>.\<close>

record readings =
  at_check :: rat
  at_start :: rat
  at_stop :: rat

text \<open>
  \<^verbatim>\<open>EnvironmentalController.activate(power, duration)\<close>, for a float \<^verbatim>\<open>power\<close> and a
  \<^verbatim>\<open>duration\<close> that is a float or \<^verbatim>\<open>None\<close>. A heater's power above 0.7 is set to 0.7, then
  the power is brought into [0.1, 1.0] by \<^verbatim>\<open>max(0.1, min(1.0, power))\<close>; a missing or too long
  duration becomes the maximum. The actuator is set active with that power, the method
  sleeps, and when the duration is positive it deactivates the actuator again before it
  returns \<^verbatim>\<open>True\<close>. With such arguments nothing in the \<^verbatim>\<open>try\<close> block raises, so the
  \<^verbatim>\<open>except\<close> branch is not entered.
\<close>

definition activate ::
  "(rat \<Rightarrow> rat \<Rightarrow> rat) \<Rightarrow> readings \<Rightarrow> double \<Rightarrow> double option \<Rightarrow> actuator \<Rightarrow> bool \<times> actuator" where
  "activate fsub clk requested duration a =
     (case is_safe_to_activate fsub (at_check clk) a of
        (Some reason, a1) \<Rightarrow> (False, a1)
      | (None, a1) \<Rightarrow>
          (let limited = (if controller_type a1 = HEATER \<and> float_gt requested (Fin float_0_7)
                          then Fin float_0_7 else requested);
               power = py_max (Fin float_0_1) (py_min (Fin 1) limited);
               seconds = (case duration of
                            None \<Rightarrow> Fin (max_activation_time a1)
                          | Some d \<Rightarrow> if float_gt d (Fin (max_activation_time a1))
                                      then Fin (max_activation_time a1) else d);
               a2 = a1\<lparr>status_state := ACTIVE,
                       status_last_activated := at_start clk,
                       status_activation_count := status_activation_count a1 + 1,
                       daily_activation_count := daily_activation_count a1 + 1,
                       status_current_power := power\<rparr>
           in if float_gt seconds (Fin 0)
              then (True, snd (deactivate (at_stop clk) a2))
              else (True, a2)))"

section \<open>Notions the properties are stated with\<close>







text \<open>The command kinds of the \<^verbatim>\<open>Command\<close> schema and the wire letter of a payload.\<close>

definition command_kinds :: "string set" where
  "command_kinds = {''dispenseFood'', ''dispenseWater'', ''setTemperature''}"

definition wire_letter :: "jsval \<Rightarrow> string \<Rightarrow> char option" where
  "wire_letter v kind = map_option hd (mqttCommand kind v)"

text \<open>The four readings one message gives a device.\<close>

definition four_readings :: "double list \<Rightarrow> device \<Rightarrow> reading list" where
  "four_readings vals d =
     [\<lparr>rd_device = dev_id d, rd_type = ''food'', rd_value = vals ! 0\<rparr>,
      \<lparr>rd_device = dev_id d, rd_type = ''water'', rd_value = vals ! 1\<rparr>,
      \<lparr>rd_device = dev_id d, rd_type = ''temperature'', rd_value = vals ! 2\<rparr>,
      \<lparr>rd_device = dev_id d, rd_type = ''humidity'', rd_value = vals ! 3\<rparr>]"

definition online_devices :: "world \<Rightarrow> device list" where
  "online_devices w = filter (\<lambda>d. dev_status d = online) (devices w)"

text \<open>A telemetry line that is not a test message and has four or more fields, all numeric.\<close>

definition valid_telemetry :: "runtime \<Rightarrow> jstring \<Rightarrow> bool" where
  "valid_telemetry rt data =
     (\<not> startsWith data (ascii ''TEST-'') \<and> 4 \<le> length (parse_values rt data) \<and>
      \<not> list_ex isNaN (parse_values rt data))"

text \<open>The user has no device, or the user's first device is not online.\<close>

definition unavailable :: "world \<Rightarrow> nat \<Rightarrow> bool" where
  "unavailable w user =
     (case find_by_user w user of
        [] \<Rightarrow> True
      | d # _ \<Rightarrow> dev_status d \<noteq> online)"

subsection \<open>Concrete states\<close>

text \<open>
  A deployment with one user (7) who owns one device (1), the service connected to its
  broker, and environments in which publishes are acknowledged or not.
\<close>

definition feeder :: "device_status \<Rightarrow> device" where
  "feeder st = \<lparr>dev_id = 1, dev_user = 7, dev_name = ''feeder'', dev_status = st\<rparr>"

definition home :: "device_status \<Rightarrow> world" where
  "home st =
     \<lparr>devices = [feeder st], commands = [], schedules = [], sensorData = [],
      notifications = [], published = [], emitted = [], in_flight = [], connected = True\<rparr>"

text \<open>Three devices of three users, the first and the last online.\<close>

definition three_devices :: world where
  "three_devices =
     \<lparr>devices = [\<lparr>dev_id = 1, dev_user = 7, dev_name = ''feeder'', dev_status = online\<rparr>,
                 \<lparr>dev_id = 2, dev_user = 8, dev_name = ''bowl'', dev_status = offline\<rparr>,
                 \<lparr>dev_id = 3, dev_user = 9, dev_name = ''kennel'', dev_status = online\<rparr>],
      commands = [], schedules = [], sensorData = [], notifications = [], published = [],
      emitted = [], in_flight = [], connected = True\<rparr>"

definition acked :: env where
  "acked = \<lparr>publish_ok = True, direct_connect_ok = True, direct_publish_ok = True,
            io_instance = True\<rparr>"

definition unacked :: env where
  "unacked = \<lparr>publish_ok = False, direct_connect_ok = True, direct_publish_ok = False,
              io_instance = True\<rparr>"

text \<open>The schedule of the specification's scenario, for device 1, and its instants.\<close>

definition monday_feed :: schedule where
  "monday_feed =
     \<lparr>sch_id = 0, sch_device = 1, sch_type = ''food'', sch_time = ascii ''08:00'',
      sch_days = [ascii ''Monday''], sch_amount = JNum 30, sch_enabled = True\<rparr>"

definition monday_0800 :: clock where
  "monday_0800 = \<lparr>day = Monday, hours = 8, minutes = 0\<rparr>"



text \<open>The home with that schedule stored, and the same store after device 1 is gone.\<close>

definition scheduled_home :: world where
  "scheduled_home = (home online)\<lparr>schedules := [monday_feed]\<rparr>"


text \<open>
  A reader of plain decimal texts, for the examples: a run of digits, or digits, a point
  and digits, gives the number written, any other text \<^verbatim>\<open>NaN\<close>. It takes the place of the
  runtime's functions in the examples only; on their texts, which have no white space, the
  runtime's \<^verbatim>\<open>parseFloat\<close> and \<^verbatim>\<open>Number\<close> give the same numbers and \<^verbatim>\<open>trim\<close> changes nothing.
  It is not a model of those functions: it knows no sign, exponent or white space and does
  not round, so on other texts it need not agree with them. No theorem about the program
  depends on it; the theorems hold for every runtime.
\<close>

definition digits_val :: "jstring \<Rightarrow> nat" where
  "digits_val s = foldl (\<lambda>a c. 10 * a + digit_val c) 0 s"

definition plain_number :: "jstring \<Rightarrow> double" where
  "plain_number s =
     (let ip = takeWhile is_digit s; r = dropWhile is_digit s
      in if ip = [] then NaN
         else
           case r of
             [] \<Rightarrow> Fin (of_nat (digits_val ip))
           | c # fp \<Rightarrow>
               if c = 46 \<and> fp \<noteq> [] \<and> list_all is_digit fp
               then Fin (of_nat (digits_val ip) + of_nat (digits_val fp) / 10 ^ length fp)
               else NaN)"

definition plain_runtime :: runtime where
  "plain_runtime = \<lparr>js_trim = (\<lambda>s. s), js_parseFloat = plain_number, js_Number = plain_number\<rparr>"

text \<open>
  A heater as \<^verbatim>\<open>EnvironmentalController('heater_1', ControllerType.HEATER)\<close> builds it, with
  a maximum activation time of 1800 seconds; exact subtraction, which the floats'
  subtraction agrees with on the times used; and a clock that reads 1700000000 seconds
  throughout one call.
\<close>

definition heater_1 :: actuator where
  "heater_1 = new_controller HEATER 1800"

definition exact_sub :: "rat \<Rightarrow> rat \<Rightarrow> rat" where
  "exact_sub x y = x - y"

definition one_call :: readings where
  "one_call = \<lparr>at_check = 1700000000, at_start = 1700000000, at_stop = 1700000000\<rparr>"

section \<open>The scheduler's decision and its dispatch\<close>




lemma float_eq_of_nat [simp]: "float_eq (Fin (of_nat m)) (Fin (of_nat n)) = (m = n)"
  by (simp add: float_eq_def rank_def)













section \<open>The wire code\<close>

lemma wire_letter_simps:
  "wire_letter v ''dispenseFood'' = Some CHR ''F''"
  "wire_letter v ''dispenseWater'' = Some CHR ''W''"
  "wire_letter v ''setTemperature'' = Some CHR ''T''"
  by (simp_all add: wire_letter_def mqttCommand_def)

lemma wire_letter_inj: "inj_on (wire_letter v) command_kinds"
  by (simp add: inj_on_def command_kinds_def wire_letter_simps)

text \<open>
  C6. The wire letter is a bijection from the three command kinds onto the letters F, W
  and T, and going from a kind to its letter and back gives the kind.
\<close>

theorem wire_letter_bijection:
  "bij_betw (wire_letter v) command_kinds {Some CHR ''F'', Some CHR ''W'', Some CHR ''T''} \<and>
   the_inv_into command_kinds (wire_letter v) (Some CHR ''F'') = ''dispenseFood'' \<and>
   the_inv_into command_kinds (wire_letter v) (Some CHR ''W'') = ''dispenseWater'' \<and>
   the_inv_into command_kinds (wire_letter v) (Some CHR ''T'') = ''setTemperature''"
proof -
  have img: "wire_letter v ` command_kinds = {Some CHR ''F'', Some CHR ''W'', Some CHR ''T''}"
    by (simp add: command_kinds_def wire_letter_simps)
  have bij: "bij_betw (wire_letter v) command_kinds {Some CHR ''F'', Some CHR ''W'', Some CHR ''T''}"
    unfolding bij_betw_def using wire_letter_inj img by blast
  have "the_inv_into command_kinds (wire_letter v) (wire_letter v ''dispenseFood'') = ''dispenseFood''"
    by (rule the_inv_into_f_f [OF wire_letter_inj]) (simp add: command_kinds_def)
  moreover
  have "the_inv_into command_kinds (wire_letter v) (wire_letter v ''dispenseWater'') = ''dispenseWater''"
    by (rule the_inv_into_f_f [OF wire_letter_inj]) (simp add: command_kinds_def)
  moreover
  have "the_inv_into command_kinds (wire_letter v) (wire_letter v ''setTemperature'') = ''setTemperature''"
    by (rule the_inv_into_f_f [OF wire_letter_inj]) (simp add: command_kinds_def)
  ultimately show ?thesis
    using bij by (simp add: wire_letter_simps)
qed

section \<open>Telemetry\<close>

lemma sensorData_notify_threshold [simp]:
  "sensorData (notify_threshold e w i ty v th lv) = sensorData w"
  by (simp add: notify_threshold_def createNotificationForSensorThreshold_def
      Notification_create_def emit_event_def Let_def split: option.splits prod.splits)

lemma sensorData_save_sensor:
  "sensorData (save_sensor e d w s) =
     sensorData w @ [\<lparr>rd_device = dev_id d, rd_type = fst s, rd_value = snd s\<rparr>]"
  by (simp add: save_sensor_def SensorData_create_def Let_def)

lemma sensorData_update_device:
  "sensorData (update_device e vals w d) = sensorData w @ four_readings vals d"
  by (simp add: update_device_def sensorData_save_sensor four_readings_def)

lemma sensorData_fold_devices:
  "sensorData (foldl (update_device e vals) w ds) =
     sensorData w @ concat (map (four_readings vals) ds)"
  by (induction ds arbitrary: w) (simp_all add: sensorData_update_device)

lemma update_device_take4:
  "4 \<le> length vals \<Longrightarrow> update_device e (take 4 vals) = update_device e vals"
  by (intro ext) (simp add: update_device_def)

lemma four_readings_take4:
  "4 \<le> length vals \<Longrightarrow> four_readings (take 4 vals) = four_readings vals"
  by (intro ext) (simp add: four_readings_def)

lemma handleSensorData_valid:
  assumes "valid_telemetry rt data"
  shows "handleSensorData rt e w data =
           (if online_devices w = [] then (None, w)
            else (Some (last (online_devices w)),
                  foldl (update_device e (take 4 (parse_values rt data))) w (online_devices w)))"
  using assms
  by (simp add: handleSensorData_def valid_telemetry_def online_devices_def Let_def
      update_device_take4)

lemma handleSensorData_invalid:
  assumes "\<not> startsWith data (ascii ''TEST-'')"
    and "length (parse_values rt data) < 4 \<or> list_ex isNaN (parse_values rt data)"
  shows "handleSensorData rt e w data = (None, w)"
  using assms by (auto simp: handleSensorData_def Let_def)

text \<open>
  C7. A message that starts with \<^verbatim>\<open>TEST-\<close> is skipped: the handler returns nothing and
  the state (readings, notifications, everything else) is as before.
\<close>

theorem test_message_discarded:
  "startsWith data (ascii ''TEST-'') \<Longrightarrow> handleSensorData rt e w data = (None, w)"
  by (simp add: handleSensorData_def)

theorem test_message_discarded_witness:
  "startsWith (ascii ''TEST-5,60,22.5,40'') (ascii ''TEST-'') \<and>
   handleSensorData plain_runtime acked (home online) (ascii ''TEST-5,60,22.5,40'') =
     (None, home online)"
proof -
  have p: "startsWith (ascii ''TEST-5,60,22.5,40'') (ascii ''TEST-'')"
    by (simp add: startsWith_def ascii_def)
  from test_message_discarded [OF p] p show ?thesis by simp
qed

lemma length_parse_values: "length (parse_values rt data) = length (split_str 44 data)"
  by (simp add: parse_values_def)

lemma list_ex_parse_values:
  "list_ex isNaN (parse_values rt data) =
     list_ex (\<lambda>f. isNaN (js_parseFloat rt (js_trim rt f))) (split_str 44 data)"
  by (auto simp: parse_values_def list_ex_iff)

lemma take4_parse_values:
  "take 4 (parse_values rt data) =
     map (\<lambda>f. js_parseFloat rt (js_trim rt f)) (take 4 (split_str 44 data))"
  by (simp add: parse_values_def take_map)

lemma sensorData_handleSensorData:
  assumes "valid_telemetry rt data"
  shows "sensorData (snd (handleSensorData rt e w data)) =
           sensorData w @ concat (map (four_readings (parse_values rt data)) (online_devices w))"
proof -
  from assms have len: "4 \<le> length (parse_values rt data)"
    by (simp add: valid_telemetry_def)
  show ?thesis
    by (simp add: handleSensorData_valid [OF assms] sensorData_fold_devices
        four_readings_take4 [OF len])
qed

text \<open>
  C9. A message that is not a test message is dropped, with the state as before, when the
  split on commas (code unit 44) gives fewer than four fields or \<^verbatim>\<open>parseFloat\<close> of some
  trimmed field is \<^verbatim>\<open>NaN\<close>. Otherwise the readings appended are those of the first four
  fields, as food, water, temperature and humidity, for each online device, and the whole
  outcome is that of any other valid message with the same first four values: further
  fields change nothing. This holds whatever \<^verbatim>\<open>trim\<close> and \<^verbatim>\<open>parseFloat\<close> give.
\<close>

theorem telemetry_fields_checked:
  assumes "\<not> startsWith data (ascii ''TEST-'')"
  shows "(length (split_str 44 data) < 4 \<or>
          list_ex (\<lambda>f. isNaN (js_parseFloat rt (js_trim rt f))) (split_str 44 data)
            \<longrightarrow> handleSensorData rt e w data = (None, w)) \<and>
         (4 \<le> length (split_str 44 data) \<and>
          \<not> list_ex (\<lambda>f. isNaN (js_parseFloat rt (js_trim rt f))) (split_str 44 data)
            \<longrightarrow> sensorData (snd (handleSensorData rt e w data)) =
                  sensorData w @
                  concat (map (four_readings
                                 (map (\<lambda>f. js_parseFloat rt (js_trim rt f))
                                    (take 4 (split_str 44 data))))
                            (online_devices w)) \<and>
                (\<forall>other. valid_telemetry rt other \<and>
                         take 4 (parse_values rt other) = take 4 (parse_values rt data)
                   \<longrightarrow> handleSensorData rt e w other = handleSensorData rt e w data))"
proof (intro conjI impI allI)
  assume "length (split_str 44 data) < 4 \<or>
          list_ex (\<lambda>f. isNaN (js_parseFloat rt (js_trim rt f))) (split_str 44 data)"
  then have "length (parse_values rt data) < 4 \<or> list_ex isNaN (parse_values rt data)"
    by (simp add: length_parse_values list_ex_parse_values)
  with assms show "handleSensorData rt e w data = (None, w)"
    by (rule handleSensorData_invalid)
next
  assume ok: "4 \<le> length (split_str 44 data) \<and>
              \<not> list_ex (\<lambda>f. isNaN (js_parseFloat rt (js_trim rt f))) (split_str 44 data)"
  with assms have v: "valid_telemetry rt data"
    by (simp add: valid_telemetry_def length_parse_values list_ex_parse_values)
  then have len: "4 \<le> length (parse_values rt data)"
    by (simp add: valid_telemetry_def)
  show "sensorData (snd (handleSensorData rt e w data)) =
          sensorData w @
          concat (map (four_readings
                         (map (\<lambda>f. js_parseFloat rt (js_trim rt f)) (take 4 (split_str 44 data))))
                    (online_devices w))"
    by (simp add: sensorData_handleSensorData [OF v] take4_parse_values [symmetric]
        four_readings_take4 [OF len])
  fix other
  assume "valid_telemetry rt other \<and> take 4 (parse_values rt other) = take 4 (parse_values rt data)"
  then show "handleSensorData rt e w other = handleSensorData rt e w data"
    by (simp add: handleSensorData_valid v)
qed

theorem telemetry_fields_checked_witness:
  "\<not> startsWith (ascii ''5,60,x,40'') (ascii ''TEST-'') \<and>
   handleSensorData plain_runtime acked (home online) (ascii ''5,60,x,40'') = (None, home online) \<and>
   handleSensorData plain_runtime acked (home online) (ascii ''5,60,22'') = (None, home online) \<and>
   sensorData (snd (handleSensorData plain_runtime acked (home online) (ascii ''5,60,22.5,40,99,100''))) =
     [\<lparr>rd_device = 1, rd_type = ''food'', rd_value = Fin 5\<rparr>,
      \<lparr>rd_device = 1, rd_type = ''water'', rd_value = Fin 60\<rparr>,
      \<lparr>rd_device = 1, rd_type = ''temperature'', rd_value = Fin (45 / 2)\<rparr>,
      \<lparr>rd_device = 1, rd_type = ''humidity'', rd_value = Fin 40\<rparr>] \<and>
   handleSensorData plain_runtime acked (home online) (ascii ''5,60,22.5,40'') =
     handleSensorData plain_runtime acked (home online) (ascii ''5,60,22.5,40,99,100'')"
proof -
  let ?pf = "\<lambda>f. isNaN (js_parseFloat plain_runtime (js_trim plain_runtime f))"
  have n1: "\<not> startsWith (ascii ''5,60,x,40'') (ascii ''TEST-'')"
    and n2: "\<not> startsWith (ascii ''5,60,22'') (ascii ''TEST-'')"
    and n3: "\<not> startsWith (ascii ''5,60,22.5,40,99,100'') (ascii ''TEST-'')"
    by (simp_all add: startsWith_def ascii_def)
  have bad1: "list_ex ?pf (split_str 44 (ascii ''5,60,x,40''))"
    by code_simp
  have bad2: "length (split_str 44 (ascii ''5,60,22'')) < 4"
    by code_simp
  have good: "4 \<le> length (split_str 44 (ascii ''5,60,22.5,40,99,100'')) \<and>
      \<not> list_ex ?pf (split_str 44 (ascii ''5,60,22.5,40,99,100''))"
    by code_simp
  have v: "valid_telemetry plain_runtime (ascii ''5,60,22.5,40'')"
    by code_simp
  have same: "take 4 (parse_values plain_runtime (ascii ''5,60,22.5,40'')) =
      take 4 (parse_values plain_runtime (ascii ''5,60,22.5,40,99,100''))"
    by code_simp
  have vals: "map (\<lambda>f. js_parseFloat plain_runtime (js_trim plain_runtime f))
                (take 4 (split_str 44 (ascii ''5,60,22.5,40,99,100''))) =
      [Fin 5, Fin 60, Fin (45 / 2), Fin 40]"
    by code_simp
  have on: "online_devices (home online) = [feeder online]"
    by (simp add: online_devices_def home_def feeder_def)
  have a: "handleSensorData plain_runtime acked (home online) (ascii ''5,60,x,40'') =
             (None, home online)"
    using telemetry_fields_checked [OF n1, of plain_runtime acked "home online"] bad1 by blast
  have b: "handleSensorData plain_runtime acked (home online) (ascii ''5,60,22'') =
             (None, home online)"
    using telemetry_fields_checked [OF n2, of plain_runtime acked "home online"] bad2 by blast
  have c: "sensorData (snd (handleSensorData plain_runtime acked (home online)
                              (ascii ''5,60,22.5,40,99,100''))) =
     [\<lparr>rd_device = 1, rd_type = ''food'', rd_value = Fin 5\<rparr>,
      \<lparr>rd_device = 1, rd_type = ''water'', rd_value = Fin 60\<rparr>,
      \<lparr>rd_device = 1, rd_type = ''temperature'', rd_value = Fin (45 / 2)\<rparr>,
      \<lparr>rd_device = 1, rd_type = ''humidity'', rd_value = Fin 40\<rparr>]"
  proof -
    from telemetry_fields_checked [OF n3, of plain_runtime acked "home online"] good
    have "sensorData (snd (handleSensorData plain_runtime acked (home online)
                             (ascii ''5,60,22.5,40,99,100''))) =
            sensorData (home online) @
            concat (map (four_readings
                           (map (\<lambda>f. js_parseFloat plain_runtime (js_trim plain_runtime f))
                              (take 4 (split_str 44 (ascii ''5,60,22.5,40,99,100'')))))
                      (online_devices (home online)))"
      by blast
    then show ?thesis
      unfolding vals on by (simp add: four_readings_def home_def feeder_def)
  qed
  have d: "handleSensorData plain_runtime acked (home online) (ascii ''5,60,22.5,40'') =
     handleSensorData plain_runtime acked (home online) (ascii ''5,60,22.5,40,99,100'')"
    using telemetry_fields_checked [OF n3, of plain_runtime acked "home online"] good v same
    by blast
  from n1 a b c d show ?thesis by blast
qed

text \<open>
  C10. A valid message gives every device that is online when it arrives the same four
  readings, food, water, temperature and humidity with the four values \<^verbatim>\<open>parseFloat\<close>
  gave for its first four trimmed fields, in the order of the devices; with no device
  online it changes nothing. This holds whatever \<^verbatim>\<open>trim\<close> and \<^verbatim>\<open>parseFloat\<close> give.
\<close>

theorem telemetry_fan_out:
  assumes "valid_telemetry rt data"
  shows "sensorData (snd (handleSensorData rt e w data)) =
           sensorData w @ concat (map (four_readings (parse_values rt data)) (online_devices w)) \<and>
         (online_devices w = [] \<longrightarrow> handleSensorData rt e w data = (None, w))"
proof
  show "sensorData (snd (handleSensorData rt e w data)) =
          sensorData w @ concat (map (four_readings (parse_values rt data)) (online_devices w))"
    using assms by (rule sensorData_handleSensorData)
  show "online_devices w = [] \<longrightarrow> handleSensorData rt e w data = (None, w)"
    by (simp add: handleSensorData_valid [OF assms])
qed

theorem telemetry_fan_out_witness:
  "valid_telemetry plain_runtime (ascii ''5,60,22.5,40'') \<and>
   sensorData (snd (handleSensorData plain_runtime acked three_devices (ascii ''5,60,22.5,40''))) =
     [\<lparr>rd_device = 1, rd_type = ''food'', rd_value = Fin 5\<rparr>,
      \<lparr>rd_device = 1, rd_type = ''water'', rd_value = Fin 60\<rparr>,
      \<lparr>rd_device = 1, rd_type = ''temperature'', rd_value = Fin (45 / 2)\<rparr>,
      \<lparr>rd_device = 1, rd_type = ''humidity'', rd_value = Fin 40\<rparr>,
      \<lparr>rd_device = 3, rd_type = ''food'', rd_value = Fin 5\<rparr>,
      \<lparr>rd_device = 3, rd_type = ''water'', rd_value = Fin 60\<rparr>,
      \<lparr>rd_device = 3, rd_type = ''temperature'', rd_value = Fin (45 / 2)\<rparr>,
      \<lparr>rd_device = 3, rd_type = ''humidity'', rd_value = Fin 40\<rparr>] \<and>
   online_devices (home offline) = [] \<and>
   handleSensorData plain_runtime acked (home offline) (ascii ''5,60,22.5,40'') =
     (None, home offline)"
proof -
  have v: "valid_telemetry plain_runtime (ascii ''5,60,22.5,40'')"
    by code_simp
  have vals: "parse_values plain_runtime (ascii ''5,60,22.5,40'') =
                [Fin 5, Fin 60, Fin (45 / 2), Fin 40]"
    by code_simp
  have off: "online_devices (home offline) = []"
    by (simp add: online_devices_def home_def feeder_def)
  have r: "concat (map (four_readings [Fin 5, Fin 60, Fin (45 / 2), Fin 40])
                     (online_devices three_devices)) =
     [\<lparr>rd_device = 1, rd_type = ''food'', rd_value = Fin 5\<rparr>,
      \<lparr>rd_device = 1, rd_type = ''water'', rd_value = Fin 60\<rparr>,
      \<lparr>rd_device = 1, rd_type = ''temperature'', rd_value = Fin (45 / 2)\<rparr>,
      \<lparr>rd_device = 1, rd_type = ''humidity'', rd_value = Fin 40\<rparr>,
      \<lparr>rd_device = 3, rd_type = ''food'', rd_value = Fin 5\<rparr>,
      \<lparr>rd_device = 3, rd_type = ''water'', rd_value = Fin 60\<rparr>,
      \<lparr>rd_device = 3, rd_type = ''temperature'', rd_value = Fin (45 / 2)\<rparr>,
      \<lparr>rd_device = 3, rd_type = ''humidity'', rd_value = Fin 40\<rparr>]"
    by (simp add: online_devices_def three_devices_def four_readings_def)
  have s0: "sensorData three_devices = []"
    by (simp add: three_devices_def)
  from telemetry_fan_out [OF v, of acked three_devices]
  have a: "sensorData (snd (handleSensorData plain_runtime acked three_devices
                              (ascii ''5,60,22.5,40''))) =
             sensorData three_devices @
             concat (map (four_readings (parse_values plain_runtime (ascii ''5,60,22.5,40'')))
                       (online_devices three_devices))"
    by blast
  from telemetry_fan_out [OF v, of acked "home offline"] off
  have b: "handleSensorData plain_runtime acked (home offline) (ascii ''5,60,22.5,40'') =
             (None, home offline)"
    by blast
  from a [unfolded vals r s0] b v off show ?thesis by simp
qed

section \<open>The heater's ceiling\<close>

lemma is_safe_to_activate_keeps:
  "controller_type (snd (is_safe_to_activate fsub t a)) = controller_type a"
  "status_current_power (snd (is_safe_to_activate fsub t a)) = status_current_power a"
  by (simp_all add: is_safe_to_activate_def Let_def)

lemma heater_power_of_number:
  assumes "\<not> isNaN requested"
  shows "\<not> float_gt
           (py_max (Fin float_0_1)
              (py_min (Fin 1)
                 (if float_gt requested (Fin float_0_7) then Fin float_0_7 else requested)))
           (Fin float_0_7)"
  using assms
  by (cases requested)
    (auto simp: py_max_def py_min_def float_gt_def float_lt_def rank_def isNaN_def
      float_0_7_def float_0_1_def)

text \<open>
  For a request that is a number, activating a heater whose power is at most 0.7 leaves
  it with a power of at most 0.7.
\<close>

lemma heater_ceiling_for_numbers:
  assumes "controller_type a = HEATER" and "\<not> isNaN requested"
    and "\<not> float_gt (status_current_power a) (Fin float_0_7)"
  shows "\<not> float_gt (status_current_power (snd (activate fsub clk requested duration a)))
           (Fin float_0_7)"
proof -
  obtain r a1 where s: "is_safe_to_activate fsub (at_check clk) a = (r, a1)"
    by (cases "is_safe_to_activate fsub (at_check clk) a")
  with is_safe_to_activate_keeps [of fsub "at_check clk" a]
  have k: "controller_type a1 = HEATER" "status_current_power a1 = status_current_power a"
    using assms(1) by simp_all
  have z: "\<not> float_gt (Fin 0) (Fin float_0_7)"
    by (simp add: float_gt_def float_lt_def rank_def float_0_7_def)
  show ?thesis
  proof (cases r)
    case (Some reason)
    with s k assms(3) show ?thesis by (simp add: activate_def)
  next
    case None
    with s k heater_power_of_number [OF assms(2)] z show ?thesis
      by (simp add: activate_def deactivate_def Let_def)
  qed
qed

text \<open>
  C8. A heater that is asked for \<^verbatim>\<open>NaN\<close> skips the ceiling: \<^verbatim>\<open>power > 0.7\<close> is false for
  it and \<^verbatim>\<open>min(1.0, power)\<close> then keeps 1.0. With a duration of 0 the call returns \<^verbatim>\<open>True\<close>
  and leaves the heater active at power 1.0, above 0.7, where the request for 1.0 leaves
  it at 0.7.
\<close>

theorem heater_nan_request_full_power:
  "fst (activate exact_sub one_call NaN (Some (Fin 0)) heater_1) \<and>
   controller_type heater_1 = HEATER \<and>
   status_state (snd (activate exact_sub one_call NaN (Some (Fin 0)) heater_1)) = ACTIVE \<and>
   status_current_power (snd (activate exact_sub one_call NaN (Some (Fin 0)) heater_1)) = Fin 1 \<and>
   float_gt (Fin 1) (Fin float_0_7) \<and>
   status_current_power (snd (activate exact_sub one_call (Fin 1) (Some (Fin 0)) heater_1)) =
     Fin float_0_7"
  by code_simp

section \<open>What the dispatch paths share\<close>

text \<open>
  The command service hands the broker one message per accepted call, the kind's letter
  followed by the caller's value as JavaScript prints it; the HTTP water and temperature
  controllers, the socket handlers and the scheduler all publish through it.
\<close>

lemma mqttCommand_kinds:
  "kind \<in> command_kinds \<Longrightarrow>
     \<exists>c. wire_letter v kind = Some c \<and> mqttCommand kind v = Some (c # toString v)"
  by (auto simp: command_kinds_def wire_letter_def mqttCommand_def)

lemma sendCommand_published:
  assumes "connected w" and "mqttCommand kind v = Some msg"
  shows "published (snd (sendCommand e w kind v dev)) =
           published w @ [\<lparr>pub_broker = brokerUrl, pub_topic = s2cTopic, pub_payload = msg\<rparr>]"
  using assms
  by (simp add: sendCommand_def Command_create_def client_publish_def update_status_def Let_def)

text \<open>An acknowledged publish: the service reports success, its record is \<^verbatim>\<open>processing\<close>
  and no write is left in flight.\<close>

lemma sendCommand_acked:
  assumes "connected w" and "mqttCommand kind v = Some msg" and "publish_ok e"
  shows "fst (sendCommand e w kind v dev) \<and>
         cmd_status (last (commands (snd (sendCommand e w kind v dev)))) = processing \<and>
         in_flight (snd (sendCommand e w kind v dev)) = in_flight w"
  using assms
  by (simp add: sendCommand_def Command_create_def client_publish_def update_status_def
      set_status_def Let_def)

text \<open>
  The HTTP controllers check the device before anything is stored: with no device, or a
  first device that is not online, they answer with a failure and leave the state as it is.
\<close>

lemma dispenseFood_unavailable:
  "unavailable w user \<Longrightarrow>
     snd (dispenseFood e w user amount) = w \<and>
     (\<exists>code msg. fst (dispenseFood e w user amount) = Response code False msg)"
  by (auto simp: unavailable_def dispenseFood_def split: list.splits)

lemma dispenseWater_unavailable:
  "unavailable w user \<Longrightarrow>
     snd (dispenseWater e w user amount) = w \<and>
     (\<exists>code msg. fst (dispenseWater e w user amount) = Response code False msg)"
  by (auto simp: unavailable_def dispenseWater_def split: list.splits)

lemma setTemperature_unavailable:
  "unavailable w user \<Longrightarrow>
     snd (setTemperature e w user temperature) = w \<and>
     (\<exists>code msg. fst (setTemperature e w user temperature) = Response code False msg)"
  by (auto simp: unavailable_def setTemperature_def split: list.splits)

section \<open>Where the dispatch paths differ\<close>

text \<open>
  C1. The HTTP food controller does not send the caller's amount. For the amount 50 and an
  online device it stores a command with the value 50 and answers with success, and the
  payload it publishes is \<^verbatim>\<open>F0\<close>, where the command service's encoding of the same
  request is \<^verbatim>\<open>F50\<close>.
\<close>

theorem dispenseFood_publishes_F0:
  "fst (dispenseFood acked (home online) 7 (JNum 50)) =
     Response 200 True ''Food dispense command sent successfully'' \<and>
   map cmd_value (commands (snd (dispenseFood acked (home online) 7 (JNum 50)))) = [JNum 50] \<and>
   map pub_payload (published (snd (dispenseFood acked (home online) 7 (JNum 50)))) = [''F0''] \<and>
   mqttCommand ''dispenseFood'' (JNum 50) = Some ''F50''"
  by code_simp

text \<open>
  C2. When the broker does not acknowledge the publish, the command service reports
  failure and the record it created keeps the status \<^verbatim>\<open>pending\<close>: nothing sets it to
  \<^verbatim>\<open>failed\<close>, also after every started write has completed.
\<close>

theorem sendCommand_unacked_stays_pending:
  "fst (sendCommand unacked (home online) ''dispenseWater'' (JNum 50) 1) = False \<and>
   map pub_payload (published (snd (sendCommand unacked (home online) ''dispenseWater'' (JNum 50) 1)))
     = [''W50''] \<and>
   in_flight (snd (sendCommand unacked (home online) ''dispenseWater'' (JNum 50) 1)) = [] \<and>
   map cmd_status
     (commands (settle (snd (sendCommand unacked (home online) ''dispenseWater'' (JNum 50) 1))))
     = [pending]"
  by code_simp

text \<open>
  The scheduler on the same failure: the record it creates and the record of the command
  service both stay \<^verbatim>\<open>pending\<close>.
\<close>

lemma scheduler_unacked_stays_pending:
  "map cmd_status
     (commands (settle (checkAndExecuteSchedules plain_runtime unacked monday_0800 scheduled_home)))
     = [pending, pending]"
  by code_simp

text \<open>
  C3. The socket handlers do not look at the device's status. A user with two sockets
  closes one, which sets the device offline; a \<^verbatim>\<open>dispenseFood\<close> event on the other socket
  then stores two command records for the offline device, publishes the payload and
  emits no error.
\<close>

theorem socket_dispenseFood_offline_device:
  "map dev_status
     (devices (socket_disconnect (socket_connection (socket_connection (home offline) 7) 7) 7))
     = [offline] \<and>
   map (\<lambda>c. (cmd_device c, cmd_status c))
     (commands (socket_dispenseFood acked
        (socket_disconnect (socket_connection (socket_connection (home offline) 7) 7) 7)
        7 (JNum 50)))
     = [(1, processing), (1, processing)] \<and>
   map pub_payload
     (published (socket_dispenseFood acked
        (socket_disconnect (socket_connection (socket_connection (home offline) 7) 7) 7)
        7 (JNum 50)))
     = [''F50''] \<and>
   fst (dispenseWater acked
        (socket_disconnect (socket_connection (socket_connection (home offline) 7) 7) 7)
        7 (JNum 50))
     = Response 400 False ''Device is offline or in maintenance''"
  by code_simp

text \<open>
  C5. The HTTP food controller answers before the status is written. When it sends the
  success response the update to \<^verbatim>\<open>processing\<close> has been started and not awaited, and the
  stored status is still \<^verbatim>\<open>pending\<close>; on a failed publish it likewise answers with the
  update to \<^verbatim>\<open>failed\<close> still in flight.
\<close>

theorem dispenseFood_answers_before_write:
  "fst (dispenseFood acked (home online) 7 (JNum 50)) =
     Response 200 True ''Food dispense command sent successfully'' \<and>
   in_flight (snd (dispenseFood acked (home online) 7 (JNum 50))) = [(0, processing)] \<and>
   map cmd_status (commands (snd (dispenseFood acked (home online) 7 (JNum 50)))) = [pending] \<and>
   fst (dispenseFood unacked (home online) 7 (JNum 50)) =
     Response 500 False ''Failed to send command to device'' \<and>
   in_flight (snd (dispenseFood unacked (home online) 7 (JNum 50))) = [(0, failed)] \<and>
   map cmd_status (commands (snd (dispenseFood unacked (home online) 7 (JNum 50)))) = [pending]"
  by code_simp

end
